theory Spec2Isabelle
  imports Complex_Main "HOL-Library.Word" "HOL-Library.Sublist"
begin

section \<open>JavaScript strings and numbers\<close>

text \<open>
  A JavaScript string is a sequence of UTF-16 code units, and \<open>+\<close>, \<open>===\<close> and a regular
  expression without the \<open>u\<close> flag all work on code units. The literals of \<open>index.js\<close> that
  are not ASCII are written out as their code units (the pictograph U+1F4A1 is the
  surrogate pair D83D DCA1).
\<close>

type_synonym u8 = "8 word"
type_synonym u16 = "16 word"
type_synonym jsstring = "u16 list"

named_theorems js_lit \<open>the string literals of index.js\<close>

definition ascii :: "string \<Rightarrow> jsstring" where
  "ascii s = map of_char s"

definition sp :: jsstring where
  js_sp [js_lit]: "sp = ascii '' ''"

text \<open>
  Number-to-string conversion of a non-negative integer (below \<open>10^21\<close>, where JavaScript
  switches to exponent notation): its decimal digits.
\<close>

fun digits :: "nat \<Rightarrow> jsstring" where
  "digits n = (if n < 10 then [of_nat (48 + n)]
               else digits (n div 10) @ [of_nat (48 + n mod 10)])"

declare digits.simps [simp del]

text \<open>
  \<open>Math.round(t / n)\<close> for non-negative integers \<open>t\<close> and \<open>n > 0\<close>.
  \<open>Math.round\<close> is \<open>floor(x + 0.5)\<close>; the quotient is computed here exactly, which is
  what the double-precision division followed by \<open>Math.round\<close> gives as long as
  \<open>2 * t + n\<close> stays below \<open>2^53\<close> (samples are 16-bit values, so going beyond takes
  more than \<open>2^35\<close> samples between two drains).
\<close>

definition math_round_div :: "nat \<Rightarrow> nat \<Rightarrow> nat" where
  "math_round_div t n = (2 * t + n) div (2 * n)"

definition emoji_sun :: jsstring where
  js_sun [js_lit]: "emoji_sun = [0x2600, 0xFE0F]"

definition emoji_sun_small_cloud :: jsstring where
  js_sun_small_cloud [js_lit]: "emoji_sun_small_cloud = [0xD83C, 0xDF24]"

definition emoji_sun_behind_cloud :: jsstring where
  js_sun_behind_cloud [js_lit]: "emoji_sun_behind_cloud = [0x26C5, 0xFE0F]"

definition emoji_cloud :: jsstring where
  js_cloud [js_lit]: "emoji_cloud = [0x2601, 0xFE0F]"

definition emoji_bulb :: jsstring where
  js_bulb [js_lit]: "emoji_bulb = [0xD83D, 0xDCA1]"

definition emoji_candle :: jsstring where
  js_candle [js_lit]: "emoji_candle = [0xD83D, 0xDD6F]"

definition emoji_ghost :: jsstring where
  js_ghost [js_lit]: "emoji_ghost = [0xD83D, 0xDC7B]"

definition emoji_zzz :: jsstring where
  js_zzz [js_lit]: "emoji_zzz = [0xD83D, 0xDCA4]"

section \<open>The application state\<close>

text \<open>The three mutable fields of \<open>class App\<close> (the collaborators' clients are not state).\<close>

record app =
  luxes :: "nat list"
  netatmoStatus :: jsstring
  braviaStatus :: jsstring

section \<open>The light-level sampler: \<open>_calcLux\<close>\<close>

text \<open>
  \<open>_calcLux\<close> of the async/await variant (lines 245-265). It returns the fragment and the
  state it leaves behind.
\<close>

definition calcLux :: "app \<Rightarrow> jsstring \<times> app" where
  "calcLux a =
     (if length (luxes a) = 0 then (emoji_bulb @ emoji_zzz @ sp, a)
      else
        let total = foldl (\<lambda>memo lux. memo + lux) 0 (luxes a);
            val = math_round_div total (length (luxes a));
            emoji = (if val > 2750 then emoji_sun
                     else if val > 2000 then emoji_sun_small_cloud
                     else if val > 1000 then emoji_sun_behind_cloud
                     else if val > 500 then emoji_cloud
                     else if val > 100 then emoji_bulb
                     else if val > 10 then emoji_candle
                     else emoji_ghost)
        in (emoji @ sp @ digits val @ sp, a\<lparr>luxes := []\<rparr>))"

text \<open>\<open>_calcLux\<close> of the callback variant (lines 502-522).\<close>

definition calcLux2 :: "app \<Rightarrow> jsstring \<times> app" where
  "calcLux2 a =
     (if length (luxes a) = 0 then (emoji_bulb @ emoji_zzz @ sp, a)
      else
        let total = foldl (\<lambda>memo lux. memo + lux) 0 (luxes a);
            val = math_round_div total (length (luxes a));
            emoji = (if val > 2750 then emoji_sun
                     else if val > 2000 then emoji_sun_small_cloud
                     else if val > 1000 then emoji_sun_behind_cloud
                     else if val > 500 then emoji_cloud
                     else if val > 100 then emoji_bulb
                     else if val > 10 then emoji_candle
                     else emoji_ghost)
        in (emoji @ sp @ digits val @ sp, a\<lparr>luxes := []\<rparr>))"

section \<open>What a handler does to the outside\<close>

text \<open>
  Every handler of \<open>index.js\<close> is modelled as a function from the state before (and the
  answers of the collaborators it asks) to the state after and the list of its effects on
  the outside, in program order, the effects of a callback right after the call that
  takes it. The fields \<open>status\<close> and \<open>media_ids\<close> of the posted object are \<open>st_status\<close> and
  \<open>st_media_ids\<close> here.
\<close>

datatype level = Verbose | Info | Warn | Error

datatype js_error = TypeError | RangeError | Failure jsstring

datatype timer = CamStart | NetatmoMonitor | BraviaMonitor

text \<open>The object \<open>st\<close> handed to \<open>twitter.post('statuses/update', st)\<close>.\<close>

record status_update =
  st_status :: jsstring
  st_media_ids :: "jsstring option"

datatype effect =
    Log level
  | Post status_update
  | Upload "u8 list"
  | SetTimeout timer nat
  | Uncaught js_error
  | UnhandledRejection jsstring

text \<open>
  The answer of a collaborator to one request: the promise is rejected (or the callback
  gets an error) with an error whose \<open>message\<close> is given, or it delivers a value.
\<close>

datatype 'a outcome = Rejected jsstring | Resolved 'a

text \<open>
  The truthiness test \<open>if (x)\<close> on a value that is \<open>undefined\<close> (\<open>None\<close>) or a string:
  the empty string is falsy.
\<close>

definition truthy :: "jsstring option \<Rightarrow> bool" where
  "truthy v = (case v of None \<Rightarrow> False | Some s \<Rightarrow> s \<noteq> [])"

section \<open>The weather snapshot builder: \<open>parseNetatmoDevice\<close>\<close>

definition emoji_thermometer :: jsstring where
  js_thermometer [js_lit]: "emoji_thermometer = [0xD83C, 0xDF21]"

definition unit_celsius :: jsstring where
  js_celsius [js_lit]: "unit_celsius = [0x2103]"

definition emoji_droplet :: jsstring where
  js_droplet [js_lit]: "emoji_droplet = [0xD83D, 0xDCA7]"

definition emoji_balloon :: jsstring where
  js_balloon [js_lit]: "emoji_balloon = [0xD83C, 0xDF88]"

definition emoji_tree :: jsstring where
  js_tree [js_lit]: "emoji_tree = [0xD83C, 0xDF33]"

definition emoji_speaker :: jsstring where
  js_speaker [js_lit]: "emoji_speaker = [0xD83D, 0xDD0A]"

text \<open>
  The reading object \<open>device.dashboard_data\<close> with the five fields the code looks up. The
  type \<open>'v\<close> is that of the values the station delivers; the function \<open>toString\<close> that the
  model takes as a parameter is the conversion \<open>+\<close> applies to them.
\<close>

record 'v dashboard =
  Temperature :: 'v
  Humidity :: 'v
  Pressure :: 'v
  CO2 :: 'v
  Noise :: 'v

record 'v device =
  dashboard_data :: "'v dashboard option"

text \<open>\<open>parseNetatmoDevice\<close> of the async/await variant (lines 152-172).\<close>

definition parseNetatmoDevice :: "('v \<Rightarrow> jsstring) \<Rightarrow> 'v device \<Rightarrow> jsstring \<times> effect list" where
  "parseNetatmoDevice toString device =
     (case dashboard_data device of
        None \<Rightarrow> ([], [Log Warn])
      | Some data \<Rightarrow>
          (foldl (\<lambda>status (key, emoji, unit). status @ emoji @ sp @ toString (key data) @ unit @ sp) []
             [(Temperature, emoji_thermometer, unit_celsius),
              (Humidity, emoji_droplet, ascii ''%''),
              (Pressure, emoji_balloon, ascii ''hPa''),
              (CO2, emoji_tree, ascii ''ppm''),
              (Noise, emoji_speaker, ascii ''dB '')],
           []))"

text \<open>\<open>parseNetatmoDevice\<close> of the callback variant (lines 430-450).\<close>

definition parseNetatmoDevice2 :: "('v \<Rightarrow> jsstring) \<Rightarrow> 'v device \<Rightarrow> jsstring \<times> effect list" where
  "parseNetatmoDevice2 toString device =
     (case dashboard_data device of
        None \<Rightarrow> ([], [Log Warn])
      | Some data \<Rightarrow>
          (foldl (\<lambda>status (key, emoji, unit). status @ emoji @ sp @ toString (key data) @ unit @ sp) []
             [(Temperature, emoji_thermometer, unit_celsius),
              (Humidity, emoji_droplet, ascii ''%''),
              (Pressure, emoji_balloon, ascii ''hPa''),
              (CO2, emoji_tree, ascii ''ppm''),
              (Noise, emoji_speaker, ascii ''dB '')],
           []))"

text \<open>The conversion of an integer reading to a string.\<close>

definition int_toString :: "int \<Rightarrow> jsstring" where
  "int_toString i = (if i < 0 then ascii ''-'' @ digits (nat (- i)) else digits (nat i))"

section \<open>The beacon feed: the \<open>discover\<close> handler\<close>

text \<open>
  \<open>peripheral.advertisement\<close>: \<open>localName\<close> is a string or not (\<open>None\<close> when
  \<open>_.isString\<close> is false), \<open>manufacturerData\<close> is a \<open>Buffer\<close> or missing.
\<close>

record advertisement =
  localName :: "jsstring option"
  manufacturerData :: "u8 list option"

text \<open>\<open>Buffer.readUInt8(offset)\<close> throws a \<open>RangeError\<close> beyond the end of the buffer.\<close>

definition readUInt8 :: "u8 list \<Rightarrow> nat \<Rightarrow> js_error + nat" where
  "readUInt8 buf offset =
     (if offset < length buf then Inr (unat (buf ! offset)) else Inl RangeError)"

text \<open>
  The handler of the async/await variant (lines 79-93). \<open>name.match(/^BLECAST_BL/)\<close> is
  the test that the name starts with these ten characters; a \<open>Buffer\<close>, even an empty one,
  is truthy.
\<close>

definition discover :: "advertisement \<Rightarrow> app \<Rightarrow> app \<times> effect list" where
  "discover adv a =
     (case localName adv of
        None \<Rightarrow> (a, [Log Verbose])
      | Some name \<Rightarrow>
          if \<not> prefix (ascii ''BLECAST_BL'') name then (a, [Log Verbose])
          else (case manufacturerData adv of
                  None \<Rightarrow> (a, [Log Verbose])
                | Some data \<Rightarrow>
                    (case readUInt8 data 5 of
                       Inl e \<Rightarrow> (a, [Log Verbose, Uncaught e])
                     | Inr hi \<Rightarrow>
                         (case readUInt8 data 4 of
                            Inl e \<Rightarrow> (a, [Log Verbose, Uncaught e])
                          | Inr lo \<Rightarrow>
                              (a\<lparr>luxes := luxes a @ [hi * 256 + lo]\<rparr>,
                               [Log Verbose, Log Verbose])))))"

text \<open>The handler of the callback variant (lines 347-361): the last log is at level info.\<close>

definition discover2 :: "advertisement \<Rightarrow> app \<Rightarrow> app \<times> effect list" where
  "discover2 adv a =
     (case localName adv of
        None \<Rightarrow> (a, [Log Verbose])
      | Some name \<Rightarrow>
          if \<not> prefix (ascii ''BLECAST_BL'') name then (a, [Log Verbose])
          else (case manufacturerData adv of
                  None \<Rightarrow> (a, [Log Verbose])
                | Some data \<Rightarrow>
                    (case readUInt8 data 5 of
                       Inl e \<Rightarrow> (a, [Log Verbose, Uncaught e])
                     | Inr hi \<Rightarrow>
                         (case readUInt8 data 4 of
                            Inl e \<Rightarrow> (a, [Log Verbose, Uncaught e])
                          | Inr lo \<Rightarrow>
                              (a\<lparr>luxes := luxes a @ [hi * 256 + lo]\<rparr>,
                               [Log Verbose, Log Info])))))"

section \<open>The publisher: \<open>_tweet\<close>\<close>

definition clock_separator :: jsstring where
  js_clock [js_lit]: "clock_separator = [0x20, 0x23F0, 0x20]"

text \<open>
  \<open>_tweet\<close> of the async/await variant (lines 201-211). \<open>now\<close> is the value of \<open>_.now()\<close>,
  the milliseconds since the epoch; for such a value \<open>parseInt(now / 1000)\<close> is the whole
  number of seconds. \<open>posted\<close> is the answer of the status-post call. The function returns
  how its promise settles and its effects; the success log is only reached when the
  awaited call did not reject.
\<close>

definition tweet :: "jsstring \<Rightarrow> jsstring option \<Rightarrow> nat \<Rightarrow> unit outcome \<Rightarrow> unit outcome \<times> effect list" where
  "tweet text media now posted =
     (let st = \<lparr>st_status = text @ clock_separator @ digits (now div 1000) @ ascii ''UTC'',
                st_media_ids = None\<rparr>;
          st = (if truthy media then st\<lparr>st_media_ids := media\<rparr> else st)
      in (posted,
          [Post st] @ (case posted of Rejected err \<Rightarrow> [] | Resolved u \<Rightarrow> [Log Info])))"

text \<open>
  \<open>_tweet\<close> of the callback variant (lines 452-466): the callback of the post call logs
  the error or the success.
\<close>

definition tweet2 :: "jsstring \<Rightarrow> jsstring option \<Rightarrow> nat \<Rightarrow> unit outcome \<Rightarrow> effect list" where
  "tweet2 text media now posted =
     (let st = \<lparr>st_status = text @ clock_separator @ digits (now div 1000) @ ascii ''UTC'',
                st_media_ids = None\<rparr>;
          st = (if truthy media then st\<lparr>st_media_ids := media\<rparr> else st)
      in [Post st, (case posted of Rejected err \<Rightarrow> Log Error | Resolved u \<Rightarrow> Log Info)])"

text \<open>The publish calls among the effects of a handler.\<close>

fun posts :: "effect list \<Rightarrow> status_update list" where
  "posts [] = []"
| "posts (Post st # es) = st # posts es"
| "posts (e # es) = posts es"

section \<open>The station request: \<open>_getNetatmoStationData\<close>\<close>

text \<open>
  What \<open>netatmo.getStationsData\<close> does with the callback it is given: it throws before
  returning (\<open>Throws\<close>, with the message of the error), or it calls the callback with an
  error, or with no error and the list of devices.
\<close>

datatype 'v station_reply = Throws jsstring | CallbackError | CallbackDevices "'v device list"

text \<open>A promise never settles, or it settles with an outcome.\<close>

datatype 'a promise = Pending | Settled "'a outcome"

text \<open>
  \<open>_getNetatmoStationData\<close> of the async/await variant (lines 213-225). A throw inside
  the executor of \<open>new Promise\<close> rejects the promise. \<open>devices[0]\<close> of an empty list is
  \<open>undefined\<close>, and reading \<open>dashboard_data\<close> of it throws a \<open>TypeError\<close> inside the
  collaborator's callback, after \<open>_calcLux\<close> has drained the buffer: \<open>resolve\<close> is never
  called.
\<close>

definition getNetatmoStationData ::
    "('v \<Rightarrow> jsstring) \<Rightarrow> 'v station_reply \<Rightarrow> app \<Rightarrow> jsstring promise \<times> app \<times> effect list" where
  "getNetatmoStationData toString reply a =
     (case reply of
        Throws msg \<Rightarrow> (Settled (Rejected msg), a, [])
      | CallbackError \<Rightarrow>
          (let (status, a') = calcLux a
           in (Settled (Resolved (status @ ascii ''Netatmo error! '')), a', []))
      | CallbackDevices devices \<Rightarrow>
          (let (status, a') = calcLux a
           in case devices of
                [] \<Rightarrow> (Pending, a', [Uncaught TypeError])
              | device # rest \<Rightarrow>
                  (let (parsed, effs) = parseNetatmoDevice toString device
                   in (Settled (Resolved (status @ parsed)), a', effs))))"

text \<open>\<open>_getNetatomoStationData\<close> of the callback variant (lines 468-480).\<close>

definition getNetatomoStationData ::
    "('v \<Rightarrow> jsstring) \<Rightarrow> 'v station_reply \<Rightarrow> app \<Rightarrow> jsstring promise \<times> app \<times> effect list" where
  "getNetatomoStationData toString reply a =
     (case reply of
        Throws msg \<Rightarrow> (Settled (Rejected msg), a, [])
      | CallbackError \<Rightarrow>
          (let (status, a') = calcLux2 a
           in (Settled (Resolved (status @ ascii ''Netatmo error! '')), a', []))
      | CallbackDevices devices \<Rightarrow>
          (let (status, a') = calcLux2 a
           in case devices of
                [] \<Rightarrow> (Pending, a', [Uncaught TypeError])
              | device # rest \<Rightarrow>
                  (let (parsed, effs) = parseNetatmoDevice2 toString device
                   in (Settled (Resolved (status @ parsed)), a', effs))))"

section \<open>The television request: \<open>_getBraviaStatus\<close>\<close>

text \<open>
  \<open>programTitle.replace(INVALID_TEXT_REGEXP, '')\<close>. The expression is global and has three
  alternatives: one code unit from E000 to F8FF; the code unit D83C followed by one from
  DF00 to DFFF; the code unit D83D followed by one from DC00 to DDFF. From left to right,
  at each position the first alternative that matches is removed and the scan goes on
  behind the match; a code unit where nothing matches is kept.
\<close>

fun replace_INVALID_TEXT :: "jsstring \<Rightarrow> jsstring" where
  "replace_INVALID_TEXT (c # d # cs) =
     (if 0xE000 \<le> c \<and> c \<le> 0xF8FF then replace_INVALID_TEXT (d # cs)
      else if c = 0xD83C \<and> 0xDF00 \<le> d \<and> d \<le> 0xDFFF then replace_INVALID_TEXT cs
      else if c = 0xD83D \<and> 0xDC00 \<le> d \<and> d \<le> 0xDDFF then replace_INVALID_TEXT cs
      else c # replace_INVALID_TEXT (d # cs))"
| "replace_INVALID_TEXT [c] = (if 0xE000 \<le> c \<and> c \<le> 0xF8FF then [] else [c])"
| "replace_INVALID_TEXT [] = []"

text \<open>The answer to \<open>getPlayingContentInfo\<close>; \<open>programTitle\<close> may be missing.\<close>

record content_info =
  title :: jsstring
  programTitle :: "jsstring option"

text \<open>
  \<open>_getBraviaStatus\<close> of the async/await variant (lines 227-243). \<open>power_reply\<close> is the
  outcome of \<open>getPowerStatus\<close> (its \<open>status\<close> keyword), \<open>info_reply\<close> that of
  \<open>getPlayingContentInfo\<close>, which is only asked when the status is \<open>active\<close>. A program
  title that is missing or empty is falsy. The body is one \<open>try\<close> whose handler returns,
  so the promise is always fulfilled.
\<close>

definition getBraviaStatus :: "jsstring outcome \<Rightarrow> content_info outcome \<Rightarrow> jsstring \<times> effect list" where
  "getBraviaStatus power_reply info_reply =
     (case power_reply of
        Rejected err \<Rightarrow> (ascii ''?'', [Log Warn])
      | Resolved power_status \<Rightarrow>
          if power_status = ascii ''active'' then
            (case info_reply of
               Rejected err \<Rightarrow> (ascii ''?'', [Log Warn])
             | Resolved info \<Rightarrow>
                 (let status = title info;
                      status = (case programTitle info of
                                  None \<Rightarrow> status
                                | Some t \<Rightarrow>
                                    if t \<noteq> [] then status @ ascii '': '' @ replace_INVALID_TEXT t
                                    else status)
                  in (status, [])))
          else (power_status, []))"

text \<open>\<open>_getBraviaStatus\<close> of the callback variant (lines 482-500): a promise chain with a final \<open>catch\<close>.\<close>

definition getBraviaStatus2 :: "jsstring outcome \<Rightarrow> content_info outcome \<Rightarrow> jsstring \<times> effect list" where
  "getBraviaStatus2 power_reply info_reply =
     (case power_reply of
        Rejected err \<Rightarrow> (ascii ''?'', [Log Warn])
      | Resolved power_status \<Rightarrow>
          if power_status = ascii ''active'' then
            (case info_reply of
               Rejected err \<Rightarrow> (ascii ''?'', [Log Warn])
             | Resolved info \<Rightarrow>
                 (let status = title info;
                      status = (case programTitle info of
                                  None \<Rightarrow> status
                                | Some t \<Rightarrow>
                                    if t \<noteq> [] then status @ ascii '': '' @ replace_INVALID_TEXT t
                                    else status)
                  in (status, [])))
          else (power_status, []))"

section \<open>The poll loops\<close>

definition BRAVIA_INTERVAL :: nat where
  "BRAVIA_INTERVAL = 60 * 1000"

definition NETATMO_INTERVAL :: nat where
  "NETATMO_INTERVAL = 333 * 1000"

definition NETATOMO_INTERVAL :: nat where
  "NETATOMO_INTERVAL = 5 * 60 * 1000"

definition CAM_INTERVAL :: nat where
  "CAM_INTERVAL = 15 * 60 * 1000"

definition emoji_wind :: jsstring where
  js_wind [js_lit]: "emoji_wind = [0xD83C, 0xDF2C]"

definition emoji_tv :: jsstring where
  js_tv [js_lit]: "emoji_tv = [0xD83D, 0xDCFA]"

text \<open>The state the constructor leaves.\<close>

definition new_App :: app where
  "new_App = \<lparr>luxes = [], netatmoStatus = emoji_wind @ ascii '' N/A'',
     braviaStatus = emoji_tv @ ascii '' N/A''\<rparr>"

text \<open>
  \<open>updateNetatmoStatus\<close> of the async/await variant (lines 119-130), one cycle of the
  weather loop (\<open>setInterval\<close> re-arms it). \<open>now\<close> and \<open>posted\<close> are the clock and the answer
  of the post call, used if the cycle publishes. When the awaited promise never settles
  the function never resumes. \<open>this._tweet(...)\<close> is called without \<open>await\<close>: the promise
  it returns is dropped, so its rejection is handled by nobody.
\<close>

definition updateNetatmoStatus ::
    "('v \<Rightarrow> jsstring) \<Rightarrow> 'v station_reply \<Rightarrow> nat \<Rightarrow> unit outcome \<Rightarrow> app \<Rightarrow> app \<times> effect list" where
  "updateNetatmoStatus toString reply now posted a =
     (case getNetatmoStationData toString reply a of
        (Pending, a', effs) \<Rightarrow> (a', effs)
      | (Settled (Rejected msg), a', effs) \<Rightarrow> (a'\<lparr>netatmoStatus := msg\<rparr>, effs @ [Log Error])
      | (Settled (Resolved status), a', effs) \<Rightarrow>
          if netatmoStatus a' \<noteq> status then
            (let a'' = a'\<lparr>netatmoStatus := status\<rparr>;
                 (settled, teffs) = tweet (netatmoStatus a'' @ sp @ braviaStatus a'') None now posted
             in (a'', effs @ teffs @
                   (case settled of Rejected msg \<Rightarrow> [UnhandledRejection msg] | Resolved u \<Rightarrow> [])))
          else (a', effs))"

text \<open>
  \<open>updateBraviaStatus\<close> of the async/await variant (lines 132-150), one cycle of the
  display loop. The promise of \<open>_getBraviaStatus\<close> is always fulfilled, so the handler of
  line 137 is never entered. The post is awaited inside a \<open>try\<close>.
\<close>

definition updateBraviaStatus ::
    "jsstring outcome \<Rightarrow> content_info outcome \<Rightarrow> nat \<Rightarrow> unit outcome \<Rightarrow> app \<Rightarrow> app \<times> effect list" where
  "updateBraviaStatus power_reply info_reply now posted a =
     (let (status, effs) = getBraviaStatus power_reply info_reply;
          braviaStatus' = emoji_tv @ sp @ status
      in if braviaStatus a = braviaStatus' then (a, effs)
         else
           (let a' = a\<lparr>braviaStatus := braviaStatus'\<rparr>;
                (settled, teffs) = tweet (netatmoStatus a' @ sp @ braviaStatus a') None now posted
            in (a', effs @ teffs @
                  (case settled of Rejected msg \<Rightarrow> [Log Error] | Resolved u \<Rightarrow> []))))"

text \<open>
  \<open>startNetatmoMonitor\<close> of the callback variant (lines 405-413), one cycle of the weather
  loop: the \<open>then\<close> handler stores the fragment and re-arms the timer; there is no
  \<open>catch\<close>.
\<close>

definition startNetatmoMonitor ::
    "('v \<Rightarrow> jsstring) \<Rightarrow> 'v station_reply \<Rightarrow> app \<Rightarrow> app \<times> effect list" where
  "startNetatmoMonitor toString reply a =
     (case getNetatomoStationData toString reply a of
        (Pending, a', effs) \<Rightarrow> (a', effs)
      | (Settled (Rejected msg), a', effs) \<Rightarrow> (a', effs @ [UnhandledRejection msg])
      | (Settled (Resolved status), a', effs) \<Rightarrow>
          (a'\<lparr>netatmoStatus := status\<rparr>, effs @ [SetTimeout NetatmoMonitor NETATOMO_INTERVAL]))"

text \<open>\<open>startBraviaMonitor\<close> of the callback variant (lines 415-428), one cycle of the display loop.\<close>

definition startBraviaMonitor ::
    "jsstring outcome \<Rightarrow> content_info outcome \<Rightarrow> nat \<Rightarrow> unit outcome \<Rightarrow> app \<Rightarrow> app \<times> effect list" where
  "startBraviaMonitor power_reply info_reply now posted a =
     (let (status, effs) = getBraviaStatus2 power_reply info_reply;
          status = emoji_tv @ sp @ status;
          (a', teffs) =
            (if braviaStatus a \<noteq> status then
               (let a' = a\<lparr>braviaStatus := status\<rparr>
                in (a', tweet2 (netatmoStatus a' @ sp @ braviaStatus a') None now posted))
             else (a, []))
      in (a', effs @ teffs @ [SetTimeout BraviaMonitor BRAVIA_INTERVAL]))"

section \<open>The capture workflow\<close>

definition IMG_FILENAME :: jsstring where
  "IMG_FILENAME = ascii ''raspicam.jpg''"

definition emoji_camera :: jsstring where
  js_camera [js_lit]: "emoji_camera = [0xD83D, 0xDCF8]"

text \<open>The answer to \<open>media/upload\<close>.\<close>

record media =
  media_id_string :: "jsstring option"

text \<open>
  \<open>_onCameraRead\<close> of the async/await variant (lines 174-199), the handler of the
  camera's \<open>read\<close> event. \<open>err\<close> says whether the event carries an error; \<open>file\<close> is the
  outcome of \<open>fs.readFileSync\<close>, \<open>upload\<close> that of the media upload (not asked when the
  file cannot be read), \<open>posted\<close> that of the status post.
\<close>

definition onCameraRead ::
    "bool \<Rightarrow> jsstring \<Rightarrow> u8 list outcome \<Rightarrow> media outcome \<Rightarrow> nat \<Rightarrow> unit outcome \<Rightarrow> app
      \<Rightarrow> app \<times> effect list" where
  "onCameraRead err filename file upload now posted a =
     (let logged = [if err then Log Error else Log Info]
      in if filename \<noteq> IMG_FILENAME then (a, logged)
         else
           (let status = netatmoStatus a @ sp @ braviaStatus a;
                (status, media_ids, ueffs) =
                  (case file of
                     Rejected msg \<Rightarrow> (status @ emoji_camera @ msg, None, [Log Error])
                   | Resolved data \<Rightarrow>
                       (case upload of
                          Rejected msg \<Rightarrow>
                            (status @ emoji_camera @ msg, None, [Upload data, Log Error])
                        | Resolved media \<Rightarrow> (status, media_id_string media, [Upload data])));
                (settled, teffs) = tweet status media_ids now posted
            in (a, logged @ ueffs @ teffs @
                  (case settled of Rejected msg \<Rightarrow> [Log Error] | Resolved u \<Rightarrow> [])
                  @ [SetTimeout CamStart CAM_INTERVAL])))"

text \<open>
  The handler of the \<open>read\<close> event in the callback variant (lines 375-397).
  \<open>fs.readFileSync\<close> is outside any \<open>try\<close>: when it throws, the handler ends there. In
  the upload callback, \<open>status\<close> is declared with \<open>const\<close> (line 384), so the assignment
  \<open>status += ...\<close> of line 390 throws a \<open>TypeError\<close> and the call of \<open>_tweet\<close> two lines
  below is not reached.
\<close>

definition cam_on_read2 ::
    "bool \<Rightarrow> jsstring \<Rightarrow> u8 list outcome \<Rightarrow> media outcome \<Rightarrow> nat \<Rightarrow> unit outcome \<Rightarrow> app
      \<Rightarrow> app \<times> effect list" where
  "cam_on_read2 err filename file upload now posted a =
     (let logged = [if err then Log Error else Log Info]
      in if filename \<noteq> IMG_FILENAME then (a, logged)
         else
           (let status = netatmoStatus a @ sp @ braviaStatus a
            in case file of
                 Rejected msg \<Rightarrow> (a, logged @ [Uncaught (Failure msg)])
               | Resolved data \<Rightarrow>
                   (a, logged @ [Upload data]
                       @ (case upload of
                            Rejected msg \<Rightarrow> [Uncaught TypeError]
                          | Resolved media \<Rightarrow> tweet2 status (media_id_string media) now posted)
                       @ [SetTimeout CamStart CAM_INTERVAL])))"

text \<open>The timers armed and the errors nobody handles, among the effects of a handler.\<close>

fun timers :: "effect list \<Rightarrow> (timer \<times> nat) list" where
  "timers [] = []"
| "timers (SetTimeout t ms # es) = (t, ms) # timers es"
| "timers (e # es) = timers es"

fun unhandled :: "effect list \<Rightarrow> effect list" where
  "unhandled [] = []"
| "unhandled (Uncaught e # es) = Uncaught e # unhandled es"
| "unhandled (UnhandledRejection msg # es) = UnhandledRejection msg # unhandled es"
| "unhandled (e # es) = unhandled es"

section \<open>Code points\<close>

text \<open>
  The code points of a string, as \<open>codePointAt\<close> and the string iterator read them: a high
  surrogate followed by a low surrogate is one code point above U+FFFF, any other code
  unit is a code point by itself. \<open>utf16\<close> is the encoding of one code point.
\<close>

definition high_surrogate :: "u16 \<Rightarrow> bool" where
  "high_surrogate c \<longleftrightarrow> 0xD800 \<le> c \<and> c \<le> 0xDBFF"

definition low_surrogate :: "u16 \<Rightarrow> bool" where
  "low_surrogate c \<longleftrightarrow> 0xDC00 \<le> c \<and> c \<le> 0xDFFF"

fun code_points :: "jsstring \<Rightarrow> nat list" where
  "code_points (c # d # cs) =
     (if high_surrogate c \<and> low_surrogate d
      then (0x10000 + (unat c - 0xD800) * 0x400 + (unat d - 0xDC00)) # code_points cs
      else unat c # code_points (d # cs))"
| "code_points [c] = [unat c]"
| "code_points [] = []"

definition utf16 :: "nat \<Rightarrow> jsstring" where
  "utf16 cp =
     (if cp < 0x10000 then [of_nat cp]
      else [of_nat (0xD800 + (cp - 0x10000) div 0x400), of_nat (0xDC00 + (cp - 0x10000) mod 0x400)])"

definition of_code_points :: "nat list \<Rightarrow> jsstring" where
  "of_code_points cps = concat (map utf16 cps)"

text \<open>
  The code points \<open>INVALID_TEXT_REGEXP\<close> is written for, read off its three
  alternatives: a code unit from E000 to F8FF is a code point U+E000..U+F8FF; the pairs
  that start with D83C and end in DF00..DFFF are U+1F300..U+1F3FF, those that start with
  D83D and end in DC00..DDFF are U+1F400..U+1F5FF.
\<close>

definition INVALID_TEXT_code_point :: "nat \<Rightarrow> bool" where
  "INVALID_TEXT_code_point cp \<longleftrightarrow> (0xE000 \<le> cp \<and> cp \<le> 0xF8FF) \<or> (0x1F300 \<le> cp \<and> cp \<le> 0x1F5FF)"


text \<open>
  Following the words of the specification, not the code: the private-use code points
  (the Private Use Area U+E000..U+F8FF and the two supplementary private use planes) and
  the emoji and pictograph code points, taken here as the Unicode blocks Miscellaneous
  Symbols (U+2600..U+26FF), Dingbats (U+2700..U+27BF), Miscellaneous Symbols and
  Pictographs (U+1F300..U+1F5FF), Emoticons (U+1F600..U+1F64F), Transport and Map Symbols
  (U+1F680..U+1F6FF), Supplemental Symbols and Pictographs (U+1F900..U+1F9FF) and Symbols
  and Pictographs Extended-A (U+1FA70..U+1FAFF).
\<close>

definition private_use :: "nat \<Rightarrow> bool" where
  "private_use cp \<longleftrightarrow>
     (0xE000 \<le> cp \<and> cp \<le> 0xF8FF) \<or> (0xF0000 \<le> cp \<and> cp \<le> 0xFFFFD)
     \<or> (0x100000 \<le> cp \<and> cp \<le> 0x10FFFD)"

definition emoji_or_pictograph :: "nat \<Rightarrow> bool" where
  "emoji_or_pictograph cp \<longleftrightarrow>
     (0x2600 \<le> cp \<and> cp \<le> 0x27BF) \<or> (0x1F300 \<le> cp \<and> cp \<le> 0x1F64F)
     \<or> (0x1F680 \<le> cp \<and> cp \<le> 0x1F6FF) \<or> (0x1F900 \<le> cp \<and> cp \<le> 0x1F9FF)
     \<or> (0x1FA70 \<le> cp \<and> cp \<le> 0x1FAFF)"

text \<open>
  A string is well formed when it has no unpaired surrogate: each of its code points is
  a scalar value.
\<close>

definition scalar :: "nat \<Rightarrow> bool" where
  "scalar cp \<longleftrightarrow> cp < 0x110000 \<and> \<not> (0xD800 \<le> cp \<and> cp \<le> 0xDFFF)"

definition well_formed :: "jsstring \<Rightarrow> bool" where
  "well_formed s = list_all scalar (code_points s)"

text \<open>The composite status, \<open>`${this.netatmoStatus} ${this.braviaStatus}`\<close>.\<close>

definition composite :: "app \<Rightarrow> jsstring" where
  "composite a = netatmoStatus a @ sp @ braviaStatus a"

section \<open>Properties of the sampler\<close>

lemma foldl_plus_sum_list: "foldl (\<lambda>memo lux. memo + lux) s xs = s + sum_list xs"
  for s :: nat
  by (induction xs arbitrary: s) simp_all

lemma math_round_div_round:
  assumes "0 < n"
  shows "int (math_round_div t n) = round (real t / real n)"
proof -
  have "real t / real n + 1 / 2 = real (2 * t + n) / real (2 * n)"
    using assms by (simp add: field_simps)
  then have "round (real t / real n) = \<lfloor>real (2 * t + n) / real (2 * n)\<rfloor>"
    by (simp only: round_def)
  also have "\<dots> = int ((2 * t + n) div (2 * n))"
    by (rule floor_divide_of_nat_eq)
  finally show ?thesis
    by (simp add: math_round_div_def)
qed

lemma calcLux2_eq_calcLux: "calcLux2 a = calcLux a"
  by (simp add: calcLux2_def calcLux_def)

lemma calcLux_nonempty:
  assumes "luxes a \<noteq> []"
  shows "fst (calcLux a) =
           (let val = math_round_div (sum_list (luxes a)) (length (luxes a)) in
            (if val > 2750 then emoji_sun
             else if val > 2000 then emoji_sun_small_cloud
             else if val > 1000 then emoji_sun_behind_cloud
             else if val > 500 then emoji_cloud
             else if val > 100 then emoji_bulb
             else if val > 10 then emoji_candle
             else emoji_ghost) @ sp @ digits val @ sp)"
  using assms by (simp add: calcLux_def Let_def foldl_plus_sum_list)

text \<open>
  C3. For a non-empty sample buffer, \<open>_calcLux\<close> (both variants) returns
  \<open>emoji + ' ' + mean + ' '\<close>, where \<open>mean\<close> is the arithmetic mean of the samples rounded
  to the nearest integer (\<open>round\<close>, ties upwards, as \<open>Math.round\<close>), printed in decimal, and
  the emoji is chosen by the strict thresholds 2750, 2000, 1000, 500, 100, 10: a mean equal
  to a threshold falls into the lower bucket.
\<close>

theorem calcLux_mean_bucket:
  assumes "luxes a \<noteq> []"
  shows "\<exists>m e. int m = round (real (sum_list (luxes a)) / real (length (luxes a)))
           \<and> fst (calcLux a) = e @ sp @ digits m @ sp
           \<and> fst (calcLux2 a) = e @ sp @ digits m @ sp
           \<and> (2750 < m \<longrightarrow> e = emoji_sun)
           \<and> (2000 < m \<and> m \<le> 2750 \<longrightarrow> e = emoji_sun_small_cloud)
           \<and> (1000 < m \<and> m \<le> 2000 \<longrightarrow> e = emoji_sun_behind_cloud)
           \<and> (500 < m \<and> m \<le> 1000 \<longrightarrow> e = emoji_cloud)
           \<and> (100 < m \<and> m \<le> 500 \<longrightarrow> e = emoji_bulb)
           \<and> (10 < m \<and> m \<le> 100 \<longrightarrow> e = emoji_candle)
           \<and> (m \<le> 10 \<longrightarrow> e = emoji_ghost)"
proof -
  define m where "m = math_round_div (sum_list (luxes a)) (length (luxes a))"
  define e where "e = (if m > 2750 then emoji_sun
             else if m > 2000 then emoji_sun_small_cloud
             else if m > 1000 then emoji_sun_behind_cloud
             else if m > 500 then emoji_cloud
             else if m > 100 then emoji_bulb
             else if m > 10 then emoji_candle
             else emoji_ghost)"
  from assms have "0 < length (luxes a)"
    by simp
  then have mean: "int m = round (real (sum_list (luxes a)) / real (length (luxes a)))"
    unfolding m_def by (rule math_round_div_round)
  have frag: "fst (calcLux a) = e @ sp @ digits m @ sp"
    using calcLux_nonempty [OF assms] by (simp add: Let_def m_def e_def)
  have frag2: "fst (calcLux2 a) = e @ sp @ digits m @ sp"
    using frag by (simp add: calcLux2_eq_calcLux)
  have buckets: "(2750 < m \<longrightarrow> e = emoji_sun)
           \<and> (2000 < m \<and> m \<le> 2750 \<longrightarrow> e = emoji_sun_small_cloud)
           \<and> (1000 < m \<and> m \<le> 2000 \<longrightarrow> e = emoji_sun_behind_cloud)
           \<and> (500 < m \<and> m \<le> 1000 \<longrightarrow> e = emoji_cloud)
           \<and> (100 < m \<and> m \<le> 500 \<longrightarrow> e = emoji_bulb)
           \<and> (10 < m \<and> m \<le> 100 \<longrightarrow> e = emoji_candle)
           \<and> (m \<le> 10 \<longrightarrow> e = emoji_ghost)"
    by (simp add: e_def)
  from mean frag frag2 buckets show ?thesis
    by blast
qed

theorem calcLux_mean_bucket_witness:
  "luxes \<lparr>luxes = [2750, 2751, 2749], netatmoStatus = [], braviaStatus = []\<rparr> \<noteq> []
   \<and> fst (calcLux \<lparr>luxes = [2750, 2751, 2749], netatmoStatus = [], braviaStatus = []\<rparr>)
       = emoji_sun_small_cloud @ sp @ ascii ''2750'' @ sp"
proof -
  let ?a = "\<lparr>luxes = [2750, 2751, 2749], netatmoStatus = [], braviaStatus = []\<rparr>"
  have ne: "luxes ?a \<noteq> []"
    by simp
  have mean: "round (real (sum_list (luxes ?a)) / real (length (luxes ?a))) = 2750"
    by simp
  from calcLux_mean_bucket [OF ne] obtain m e where
    m: "int m = round (real (sum_list (luxes ?a)) / real (length (luxes ?a)))"
    and frag: "fst (calcLux ?a) = e @ sp @ digits m @ sp"
    and e: "2000 < m \<and> m \<le> 2750 \<longrightarrow> e = emoji_sun_small_cloud"
    by blast
  from m mean have "m = 2750"
    by linarith
  moreover have "digits 2750 = ascii ''2750''"
    by (simp add: digits.simps ascii_def)
  ultimately show ?thesis
    using ne frag e by simp
qed

text \<open>
  C9. With an empty buffer \<open>_calcLux\<close> returns the asleep fragment at once (the early
  return of line 246: the quotient of line 253 is only evaluated when the length is not
  zero) and leaves the state as it is; after every call the buffer is empty; so a second
  call with no sample in between returns the asleep fragment.
\<close>

theorem calcLux_drains:
  "(luxes a = [] \<longrightarrow> calcLux a = (emoji_bulb @ emoji_zzz @ sp, a))
   \<and> luxes (snd (calcLux a)) = []
   \<and> fst (calcLux (snd (calcLux a))) = emoji_bulb @ emoji_zzz @ sp"
proof -
  have drained: "luxes (snd (calcLux a)) = []"
    by (simp add: calcLux_def Let_def)
  have asleep: "luxes b = [] \<Longrightarrow> calcLux b = (emoji_bulb @ emoji_zzz @ sp, b)" for b
    by (simp add: calcLux_def)
  from asleep [of a] drained asleep [OF drained] show ?thesis
    by simp
qed

theorem calcLux_drains_witness:
  "luxes \<lparr>luxes = [], netatmoStatus = [], braviaStatus = []\<rparr> = []
   \<and> fst (calcLux \<lparr>luxes = [], netatmoStatus = [], braviaStatus = []\<rparr>)
       = [0xD83D, 0xDCA1, 0xD83D, 0xDCA4, 0x20]
   \<and> fst (calcLux (snd (calcLux \<lparr>luxes = [308], netatmoStatus = [], braviaStatus = []\<rparr>)))
       = [0xD83D, 0xDCA1, 0xD83D, 0xDCA4, 0x20]"
  using calcLux_drains [of "\<lparr>luxes = [], netatmoStatus = [], braviaStatus = []\<rparr>"]
    calcLux_drains [of "\<lparr>luxes = [308], netatmoStatus = [], braviaStatus = []\<rparr>"]
  by (simp add: js_lit ascii_def)

section \<open>Properties of the weather snapshot builder\<close>

lemma parseNetatmoDevice2_eq: "parseNetatmoDevice2 toString d = parseNetatmoDevice toString d"
  by (simp add: parseNetatmoDevice2_def parseNetatmoDevice_def)

lemma parseNetatmoDevice_present:
  assumes "dashboard_data d = Some data"
  shows "parseNetatmoDevice toString d =
     (emoji_thermometer @ sp @ toString (Temperature data) @ unit_celsius @ sp
      @ emoji_droplet @ sp @ toString (Humidity data) @ ascii ''%'' @ sp
      @ emoji_balloon @ sp @ toString (Pressure data) @ ascii ''hPa'' @ sp
      @ emoji_tree @ sp @ toString (CO2 data) @ ascii ''ppm'' @ sp
      @ emoji_speaker @ sp @ toString (Noise data) @ ascii ''dB '' @ sp, [])"
  using assms by (simp add: parseNetatmoDevice_def)

text \<open>
  C7 (as amended). When the reading object is present, \<open>parseNetatmoDevice\<close> (both
  variants) returns the five sub-fragments \<open>emoji + ' ' + value + unit + ' '\<close> in the order
  Temperature, Humidity, Pressure, CO2, Noise, and logs nothing; the unit strings are the
  degree-Celsius sign, \<open>%\<close>, \<open>hPa\<close>, \<open>ppm\<close> and, for Noise, \<open>dB\<close> followed by a space, so
  that the fragment ends in two spaces. When the reading object is absent it returns the
  empty fragment and its only effect is one warning in the log.
\<close>

theorem parseNetatmoDevice_fragment:
  "(dashboard_data d = None \<longrightarrow>
      parseNetatmoDevice toString d = ([], [Log Warn])
      \<and> parseNetatmoDevice2 toString d = ([], [Log Warn]))
   \<and> (\<forall>data. dashboard_data d = Some data \<longrightarrow>
      parseNetatmoDevice toString d =
        (emoji_thermometer @ sp @ toString (Temperature data) @ unit_celsius @ sp
         @ emoji_droplet @ sp @ toString (Humidity data) @ ascii ''%'' @ sp
         @ emoji_balloon @ sp @ toString (Pressure data) @ ascii ''hPa'' @ sp
         @ emoji_tree @ sp @ toString (CO2 data) @ ascii ''ppm'' @ sp
         @ emoji_speaker @ sp @ toString (Noise data) @ ascii ''dB'' @ sp @ sp, [])
      \<and> parseNetatmoDevice2 toString d = parseNetatmoDevice toString d)"
proof -
  have absent: "parseNetatmoDevice toString d = ([], [Log Warn])"
    if "dashboard_data d = None"
    using that by (simp add: parseNetatmoDevice_def)
  have unit_dB: "ascii ''dB '' = ascii ''dB'' @ sp"
    by (simp add: ascii_def js_sp)
  have present: "parseNetatmoDevice toString d =
        (emoji_thermometer @ sp @ toString (Temperature data) @ unit_celsius @ sp
         @ emoji_droplet @ sp @ toString (Humidity data) @ ascii ''%'' @ sp
         @ emoji_balloon @ sp @ toString (Pressure data) @ ascii ''hPa'' @ sp
         @ emoji_tree @ sp @ toString (CO2 data) @ ascii ''ppm'' @ sp
         @ emoji_speaker @ sp @ toString (Noise data) @ ascii ''dB'' @ sp @ sp, [])"
    if "dashboard_data d = Some data" for data
    using parseNetatmoDevice_present [OF that, of toString] by (simp add: unit_dB)
  from absent present show ?thesis
    by (simp add: parseNetatmoDevice2_eq)
qed

theorem parseNetatmoDevice_fragment_witness:
  "dashboard_data \<lparr>dashboard_data = Some \<lparr>Temperature = 21, Humidity = 55, Pressure = 1008,
       CO2 = 450, Noise = 40\<rparr>\<rparr>
     = Some \<lparr>Temperature = 21, Humidity = 55, Pressure = 1008, CO2 = 450, Noise = (40 :: int)\<rparr>
   \<and> fst (parseNetatmoDevice int_toString \<lparr>dashboard_data = Some \<lparr>Temperature = 21,
       Humidity = 55, Pressure = 1008, CO2 = 450, Noise = 40\<rparr>\<rparr>)
     = emoji_thermometer @ sp @ ascii ''21'' @ unit_celsius @ sp
       @ emoji_droplet @ sp @ ascii ''55%'' @ sp
       @ emoji_balloon @ sp @ ascii ''1008hPa'' @ sp
       @ emoji_tree @ sp @ ascii ''450ppm'' @ sp
       @ emoji_speaker @ sp @ ascii ''40dB'' @ sp @ sp
   \<and> dashboard_data (\<lparr>dashboard_data = None\<rparr> :: int device) = None
   \<and> parseNetatmoDevice2 int_toString \<lparr>dashboard_data = None\<rparr> = ([], [Log Warn])"
proof -
  let ?data = "\<lparr>Temperature = 21, Humidity = 55, Pressure = 1008, CO2 = 450,
    Noise = (40 :: int)\<rparr>"
  have rendered: "int_toString 21 = ascii ''21''" "int_toString 55 = ascii ''55''"
    "int_toString 1008 = ascii ''1008''" "int_toString 450 = ascii ''450''"
    "int_toString 40 = ascii ''40''"
    by (simp_all add: int_toString_def digits.simps ascii_def)
  from parseNetatmoDevice_fragment [of "\<lparr>dashboard_data = Some ?data\<rparr>" int_toString]
  have "fst (parseNetatmoDevice int_toString \<lparr>dashboard_data = Some ?data\<rparr>)
      = emoji_thermometer @ sp @ ascii ''21'' @ unit_celsius @ sp
        @ emoji_droplet @ sp @ ascii ''55'' @ ascii ''%'' @ sp
        @ emoji_balloon @ sp @ ascii ''1008'' @ ascii ''hPa'' @ sp
        @ emoji_tree @ sp @ ascii ''450'' @ ascii ''ppm'' @ sp
        @ emoji_speaker @ sp @ ascii ''40'' @ ascii ''dB'' @ sp @ sp"
    by (simp add: rendered)
  moreover from parseNetatmoDevice_fragment [of "\<lparr>dashboard_data = None\<rparr>" int_toString]
  have "parseNetatmoDevice2 int_toString \<lparr>dashboard_data = None\<rparr> = ([], [Log Warn])"
    by simp
  ultimately show ?thesis
    by (simp add: ascii_def)
qed

text \<open>
  The fragment the claim C7 describes for the reading 21, 55, 1008, 450, 40, with the
  unit \<open>dB\<close> and one space after it, is not what the code returns.
\<close>

theorem parseNetatmoDevice_unit_counterexample:
  "fst (parseNetatmoDevice int_toString \<lparr>dashboard_data = Some \<lparr>Temperature = 21,
       Humidity = 55, Pressure = 1008, CO2 = 450, Noise = 40\<rparr>\<rparr>)
     \<noteq> emoji_thermometer @ sp @ ascii ''21'' @ unit_celsius @ sp
       @ emoji_droplet @ sp @ ascii ''55'' @ ascii ''%'' @ sp
       @ emoji_balloon @ sp @ ascii ''1008'' @ ascii ''hPa'' @ sp
       @ emoji_tree @ sp @ ascii ''450'' @ ascii ''ppm'' @ sp
       @ emoji_speaker @ sp @ ascii ''40'' @ ascii ''dB'' @ sp"
  by (simp add: parseNetatmoDevice_def int_toString_def digits.simps js_lit ascii_def)

text \<open>
  C10. The two variants of \<open>_calcLux\<close> and of \<open>parseNetatmoDevice\<close> agree on every input:
  they return the same string, and also the same state and the same effects.
\<close>

theorem variants_agree:
  "calcLux2 a = calcLux a \<and> parseNetatmoDevice2 toString d = parseNetatmoDevice toString d"
  by (simp add: calcLux2_eq_calcLux parseNetatmoDevice2_eq)

section \<open>Properties of the beacon handler\<close>

text \<open>
  The handler on well-formed events: an event whose name starts with \<open>BLECAST_BL\<close> and whose data
  has six bytes or more records the 16-bit value with byte 4 low and byte 5 high, and
  nothing is recorded when the name is not a string, does not match, or the data is missing.
\<close>

lemma discover_records:
  assumes "localName adv = Some name" and "prefix (ascii ''BLECAST_BL'') name"
    and "manufacturerData adv = Some data" and "6 \<le> length data"
  shows "discover adv a =
           (a\<lparr>luxes := luxes a @ [unat (data ! 5) * 256 + unat (data ! 4)]\<rparr>,
            [Log Verbose, Log Verbose])"
  using assms by (simp add: discover_def readUInt8_def)

lemma discover_ignores:
  assumes "localName adv = None \<or> (\<exists>name. localName adv = Some name
      \<and> \<not> prefix (ascii ''BLECAST_BL'') name) \<or> manufacturerData adv = None"
  shows "discover adv a = (a, [Log Verbose])"
  using assms by (auto simp add: discover_def split: option.splits)

lemma discover_example:
  "discover \<lparr>localName = Some (ascii ''BLECAST_BL''),
      manufacturerData = Some [0, 0, 0, 0, 0x34, 0x01]\<rparr>
     \<lparr>luxes = [], netatmoStatus = [], braviaStatus = []\<rparr>
   = (\<lparr>luxes = [308], netatmoStatus = [], braviaStatus = []\<rparr>, [Log Verbose, Log Verbose])"
  by (simp add: discover_def readUInt8_def ascii_def)

text \<open>
  C4 fails on the code. The handler tests the name and the presence of the data, not the
  length of the data: with a matching name and five bytes of data, \<open>data.readUInt8(5)\<close>
  throws a \<open>RangeError\<close> that nothing catches, in both variants; no sample is recorded.
\<close>

theorem discover_short_data_faults:
  "discover \<lparr>localName = Some (ascii ''BLECAST_BL''),
      manufacturerData = Some [0, 0, 0, 0, 0x34]\<rparr>
     \<lparr>luxes = [], netatmoStatus = [], braviaStatus = []\<rparr>
   = (\<lparr>luxes = [], netatmoStatus = [], braviaStatus = []\<rparr>, [Log Verbose, Uncaught RangeError])
   \<and> discover2 \<lparr>localName = Some (ascii ''BLECAST_BL''),
      manufacturerData = Some [0, 0, 0, 0, 0x34]\<rparr>
     \<lparr>luxes = [], netatmoStatus = [], braviaStatus = []\<rparr>
   = (\<lparr>luxes = [], netatmoStatus = [], braviaStatus = []\<rparr>, [Log Verbose, Uncaught RangeError])"
  by (simp add: discover_def discover2_def readUInt8_def ascii_def)

section \<open>Properties of the publisher\<close>

text \<open>
  C8. For every text, every optional media handle, every clock value and every answer of
  the post call, \<open>_tweet\<close> (both variants) makes exactly one post call; the posted status
  is the text followed by the separator (space, alarm clock, space), the whole seconds
  since the epoch in decimal and \<open>UTC\<close>; and the posted object carries the media handle
  exactly when one was given (a non-empty string: the test is \<open>if (media_ids)\<close>).
\<close>

theorem tweet_posts_once:
  "posts (snd (tweet text media now posted)) =
     [\<lparr>st_status = text @ clock_separator @ digits (now div 1000) @ ascii ''UTC'',
       st_media_ids = (if truthy media then media else None)\<rparr>]
   \<and> posts (tweet2 text media now posted) =
     [\<lparr>st_status = text @ clock_separator @ digits (now div 1000) @ ascii ''UTC'',
       st_media_ids = (if truthy media then media else None)\<rparr>]"
proof -
  have async: "posts (snd (tweet text media now posted)) =
     [\<lparr>st_status = text @ clock_separator @ digits (now div 1000) @ ascii ''UTC'',
       st_media_ids = (if truthy media then media else None)\<rparr>]"
    by (cases posted) (simp_all add: tweet_def Let_def)
  have callback: "posts (tweet2 text media now posted) =
     [\<lparr>st_status = text @ clock_separator @ digits (now div 1000) @ ascii ''UTC'',
       st_media_ids = (if truthy media then media else None)\<rparr>]"
    by (cases posted) (simp_all add: tweet2_def Let_def)
  from async callback show ?thesis
    by simp
qed

section \<open>Properties of the television request\<close>



lemma unhandled_append: "unhandled (xs @ ys) = unhandled xs @ unhandled ys"
  by (induction xs rule: unhandled.induct) simp_all

lemma unat_lt: "unat (c :: u16) < 65536"
proof -
  have "unat c < 2 ^ LENGTH(16)"
    by (rule unsigned_less)
  then show ?thesis
    by simp
qed

lemma utf16_unit: "utf16 (unat (c :: u16)) = [c]"
  using unat_lt [of c] by (simp add: utf16_def)

lemma pair_cp:
  assumes "high_surrogate c" "low_surrogate d"
  shows "utf16 (0x10000 + (unat c - 0xD800) * 0x400 + (unat d - 0xDC00)) = [c, d]"
proof -
  from assms have c: "0xD800 \<le> unat c" "unat c \<le> 0xDBFF" and d: "0xDC00 \<le> unat d" "unat d \<le> 0xDFFF"
    by (simp_all add: high_surrogate_def low_surrogate_def word_le_nat_alt)
  then have "unat d - 0xDC00 < 0x400" by linarith
  then have "((unat c - 0xD800) * 0x400 + (unat d - 0xDC00)) div 0x400 = unat c - 0xD800"
    and "((unat c - 0xD800) * 0x400 + (unat d - 0xDC00)) mod 0x400 = unat d - 0xDC00"
    by simp_all
  moreover from c d have "0xD800 + (unat c - 0xD800) = unat c" "0xDC00 + (unat d - 0xDC00) = unat d"
    by simp_all
  ultimately show ?thesis
    by (simp add: utf16_def)
qed


lemma pair_range:
  fixes x y :: nat
  assumes "0xD800 \<le> x" "x \<le> 0xDBFF" "0xDC00 \<le> y" "y \<le> 0xDFFF"
  shows "(0x1F300 \<le> 0x10000 + (x - 0xD800) * 0x400 + (y - 0xDC00)
          \<and> 0x10000 + (x - 0xD800) * 0x400 + (y - 0xDC00) \<le> 0x1F5FF)
     \<longleftrightarrow> (x = 0xD83C \<and> 0xDF00 \<le> y) \<or> (x = 0xD83D \<and> y \<le> 0xDDFF)"
proof -
  consider "x < 0xD83C" | "x = 0xD83C" | "x = 0xD83D" | "0xD83D < x"
    by linarith
  then show ?thesis
  proof cases
    case 1
    with assms show ?thesis by linarith
  next
    case 2
    with assms show ?thesis by simp
  next
    case 3
    with assms show ?thesis by simp
  next
    case 4
    with assms show ?thesis by linarith
  qed
qed


lemma pair_INVALID_TEXT:
  assumes "high_surrogate c" "low_surrogate d"
  shows "INVALID_TEXT_code_point (0x10000 + (unat c - 0xD800) * 0x400 + (unat d - 0xDC00))
     \<longleftrightarrow> (c = 0xD83C \<and> 0xDF00 \<le> d \<and> d \<le> 0xDFFF) \<or> (c = 0xD83D \<and> 0xDC00 \<le> d \<and> d \<le> 0xDDFF)"
proof -
  from assms have c: "0xD800 \<le> unat c" "unat c \<le> 0xDBFF" and d: "0xDC00 \<le> unat d" "unat d \<le> 0xDFFF"
    by (simp_all add: high_surrogate_def low_surrogate_def word_le_nat_alt)
  have eq: "c = 0xD83C \<longleftrightarrow> unat c = 0xD83C" "c = 0xD83D \<longleftrightarrow> unat c = 0xD83D"
    by (simp_all add: word_unat_eq_iff)
  have le: "0xDF00 \<le> d \<longleftrightarrow> 0xDF00 \<le> unat d" "d \<le> 0xDFFF \<longleftrightarrow> unat d \<le> 0xDFFF"
    "0xDC00 \<le> d \<longleftrightarrow> 0xDC00 \<le> unat d" "d \<le> 0xDDFF \<longleftrightarrow> unat d \<le> 0xDDFF"
    by (simp_all add: word_le_nat_alt)
  have "\<not> (0x10000 + (unat c - 0xD800) * 0x400 + (unat d - 0xDC00) \<le> 0xF8FF)"
    by simp
  then have "INVALID_TEXT_code_point (0x10000 + (unat c - 0xD800) * 0x400 + (unat d - 0xDC00))
     \<longleftrightarrow> (0x1F300 \<le> 0x10000 + (unat c - 0xD800) * 0x400 + (unat d - 0xDC00)
          \<and> 0x10000 + (unat c - 0xD800) * 0x400 + (unat d - 0xDC00) \<le> 0x1F5FF)"
    unfolding INVALID_TEXT_code_point_def by blast
  also have "\<dots> \<longleftrightarrow> (unat c = 0xD83C \<and> 0xDF00 \<le> unat d) \<or> (unat c = 0xD83D \<and> unat d \<le> 0xDDFF)"
    using c d by (rule pair_range)
  also have "\<dots> \<longleftrightarrow> (c = 0xD83C \<and> 0xDF00 \<le> d \<and> d \<le> 0xDFFF) \<or> (c = 0xD83D \<and> 0xDC00 \<le> d \<and> d \<le> 0xDDFF)"
    unfolding eq le using d by blast
  finally show ?thesis .
qed

lemma unit_INVALID_TEXT:
  "INVALID_TEXT_code_point (unat (c :: u16)) \<longleftrightarrow> 0xE000 \<le> c \<and> c \<le> 0xF8FF"
  using unat_lt [of c] by (simp add: INVALID_TEXT_code_point_def word_le_nat_alt)

lemma replace_low_surrogate:
  assumes "low_surrogate d"
  shows "replace_INVALID_TEXT (d # cs) = d # replace_INVALID_TEXT cs"
proof -
  from assms have d: "0xDC00 \<le> unat d" "unat d \<le> 0xDFFF"
    by (simp_all add: low_surrogate_def word_le_nat_alt)
  then have "\<not> (0xE000 \<le> d \<and> d \<le> 0xF8FF)" "d \<noteq> 0xD83C" "d \<noteq> 0xD83D"
    by (auto simp add: word_le_nat_alt)
  then show ?thesis
    by (cases cs) simp_all
qed

lemma high_not_private: "high_surrogate c \<Longrightarrow> \<not> (0xE000 \<le> c \<and> c \<le> 0xF8FF)"
  by (simp add: high_surrogate_def word_le_nat_alt)

lemma low_not_high: "low_surrogate c \<Longrightarrow> \<not> high_surrogate c"
  by (simp add: high_surrogate_def low_surrogate_def word_le_nat_alt)

lemma of_code_points_Cons: "of_code_points (cp # cps) = utf16 cp @ of_code_points cps"
  by (simp add: of_code_points_def)

lemma code_points_low:
  "low_surrogate d \<Longrightarrow> code_points (d # cs) = unat d # code_points cs"
  by (cases cs) (simp_all add: low_not_high)

lemma replace_code_points:
  "replace_INVALID_TEXT s = of_code_points (filter (\<lambda>cp. \<not> INVALID_TEXT_code_point cp) (code_points s))"
proof (induction s rule: replace_INVALID_TEXT.induct)
  case (1 c d cs)
  show ?case
  proof (cases "high_surrogate c \<and> low_surrogate d")
    case True
    then have hi: "high_surrogate c" and lo: "low_surrogate d"
      by simp_all
    note np = high_not_private [OF hi]
    show ?thesis
    proof (cases "(c = 0xD83C \<and> 0xDF00 \<le> d \<and> d \<le> 0xDFFF) \<or> (c = 0xD83D \<and> 0xDC00 \<le> d \<and> d \<le> 0xDDFF)")
      case True
      with hi lo np 1 show ?thesis
        by (auto simp add: pair_INVALID_TEXT)
    next
      case False
      with np have keep: "replace_INVALID_TEXT (c # d # cs) = c # replace_INVALID_TEXT (d # cs)"
        by auto
      from False np 1 have "replace_INVALID_TEXT (d # cs)
          = of_code_points (filter (\<lambda>cp. \<not> INVALID_TEXT_code_point cp) (code_points (d # cs)))"
        by auto
      with lo have "d # replace_INVALID_TEXT cs
          = of_code_points (filter (\<lambda>cp. \<not> INVALID_TEXT_code_point cp) (unat d # code_points cs))"
        by (simp add: replace_low_surrogate code_points_low)
      moreover from lo have "\<not> INVALID_TEXT_code_point (unat d)"
        by (simp add: unit_INVALID_TEXT low_surrogate_def word_le_nat_alt)
      ultimately have "replace_INVALID_TEXT cs
          = of_code_points (filter (\<lambda>cp. \<not> INVALID_TEXT_code_point cp) (code_points cs))"
        by (simp add: of_code_points_Cons utf16_unit)
      with hi lo False keep show ?thesis
        by (simp add: pair_INVALID_TEXT pair_cp of_code_points_Cons replace_low_surrogate del: replace_INVALID_TEXT.simps)
    qed
  next
    case False
    then have cps: "code_points (c # d # cs) = unat c # code_points (d # cs)"
      by auto
    from False have np1: "\<not> (c = 0xD83C \<and> 0xDF00 \<le> d \<and> d \<le> 0xDFFF)"
      and np2: "\<not> (c = 0xD83D \<and> 0xDC00 \<le> d \<and> d \<le> 0xDDFF)"
      by (auto simp add: high_surrogate_def low_surrogate_def word_le_nat_alt)
    show ?thesis
    proof (cases "0xE000 \<le> c \<and> c \<le> 0xF8FF")
      case True
      then have drop: "replace_INVALID_TEXT (c # d # cs) = replace_INVALID_TEXT (d # cs)"
        by simp
      from True have ih: "replace_INVALID_TEXT (d # cs)
          = of_code_points (filter (\<lambda>cp. \<not> INVALID_TEXT_code_point cp) (code_points (d # cs)))"
        by (rule "1.IH"(1))
      from True show ?thesis
        unfolding drop cps ih by (simp add: unit_INVALID_TEXT)
    next
      case False
      with np1 np2 have keep: "replace_INVALID_TEXT (c # d # cs) = c # replace_INVALID_TEXT (d # cs)"
        by auto
      from False np1 np2 have ih: "replace_INVALID_TEXT (d # cs)
          = of_code_points (filter (\<lambda>cp. \<not> INVALID_TEXT_code_point cp) (code_points (d # cs)))"
        by (rule "1.IH"(4))
      from False show ?thesis
        unfolding keep cps ih by (simp add: unit_INVALID_TEXT of_code_points_Cons utf16_unit)
    qed
  qed
next
  case (2 c)
  show ?case
    by (simp add: unit_INVALID_TEXT of_code_points_def utf16_unit)
next
  case 3
  show ?case
    by (simp add: of_code_points_def)
qed


lemma getBraviaStatus_quiet: "unhandled (snd (getBraviaStatus power_reply info_reply)) = []"
  by (simp add: getBraviaStatus_def Let_def split: outcome.splits option.splits)

lemma tweet_quiet: "unhandled (snd (tweet text media now posted)) = []"
  by (simp add: tweet_def Let_def split: outcome.splits)

lemma updateBraviaStatus_stores:
  "braviaStatus (fst (updateBraviaStatus power_reply info_reply now posted a))
     = emoji_tv @ sp @ fst (getBraviaStatus power_reply info_reply)"
  by (auto simp add: updateBraviaStatus_def Let_def split: prod.splits)

lemma updateBraviaStatus_quiet:
  "unhandled (snd (updateBraviaStatus power_reply info_reply now posted a)) = []"
proof -
  obtain status effs where g: "getBraviaStatus power_reply info_reply = (status, effs)"
    by (cases "getBraviaStatus power_reply info_reply")
  with getBraviaStatus_quiet [of power_reply info_reply] have effs: "unhandled effs = []"
    by simp
  obtain settled teffs where
    t: "tweet (netatmoStatus a @ sp @ emoji_tv @ sp @ status) None now posted = (settled, teffs)"
    by (cases "tweet (netatmoStatus a @ sp @ emoji_tv @ sp @ status) None now posted")
  with tweet_quiet [of "netatmoStatus a @ sp @ emoji_tv @ sp @ status" None now posted]
  have teffs: "unhandled teffs = []"
    by simp
  from g t effs teffs show ?thesis
    by (cases settled) (simp_all add: updateBraviaStatus_def Let_def unhandled_append)
qed

lemma unat_of_nat_u16: "n < 65536 \<Longrightarrow> unat (of_nat n :: u16) = n"
  by (simp add: unat_of_nat)

lemma code_points_not_high:
  "\<not> high_surrogate c \<Longrightarrow> code_points (c # cs) = unat c # code_points cs"
  by (cases cs) simp_all

lemma code_points_utf16:
  assumes "scalar cp"
  shows "code_points (utf16 cp @ s) = cp # code_points s"
proof (cases "cp < 0x10000")
  case True
  then have u: "unat (of_nat cp :: u16) = cp"
    by (simp add: unat_of_nat_u16)
  with assms have "\<not> high_surrogate (of_nat cp :: u16)"
    by (auto simp add: scalar_def high_surrogate_def word_le_nat_alt)
  with True u show ?thesis
    by (simp add: utf16_def code_points_not_high)
next
  case False
  define q where "q = (cp - 0x10000) div 0x400"
  define r where "r = (cp - 0x10000) mod 0x400"
  from assms False have q: "q < 0x400"
    unfolding q_def scalar_def by simp
  have r: "r < 0x400"
    unfolding r_def by simp
  from False have cp: "cp = 0x10000 + q * 0x400 + r"
    unfolding q_def r_def by simp
  define h :: u16 where "h = of_nat (0xD800 + q)"
  define l :: u16 where "l = of_nat (0xDC00 + r)"
  from q have hi: "unat h = 0xD800 + q"
    unfolding h_def by (intro unat_of_nat_u16) simp
  from r have lo: "unat l = 0xDC00 + r"
    unfolding l_def by (intro unat_of_nat_u16) simp
  from hi q have high: "high_surrogate h"
    by (simp add: high_surrogate_def word_le_nat_alt)
  from lo r have low: "low_surrogate l"
    by (simp add: low_surrogate_def word_le_nat_alt)
  from False have "utf16 cp = [h, l]"
    by (simp add: utf16_def q_def r_def h_def l_def)
  with high low hi lo cp show ?thesis
    by simp
qed

lemma code_points_of_code_points:
  "list_all scalar cps \<Longrightarrow> code_points (of_code_points cps) = cps"
proof (induction cps)
  case Nil
  show ?case
    by (simp add: of_code_points_def)
next
  case (Cons cp cps)
  then show ?case
    by (simp add: of_code_points_Cons code_points_utf16)
qed

lemma replace_well_formed:
  assumes "well_formed t"
  shows "code_points (replace_INVALID_TEXT t)
           = filter (\<lambda>cp. \<not> INVALID_TEXT_code_point cp) (code_points t)"
proof -
  from assms have "list_all scalar (filter (\<lambda>cp. \<not> INVALID_TEXT_code_point cp) (code_points t))"
    by (simp add: well_formed_def list_all_iff)
  then show ?thesis
    by (simp add: replace_code_points code_points_of_code_points)
qed


lemma getBraviaStatus2_eq:
  "getBraviaStatus2 power_reply info_reply = getBraviaStatus power_reply info_reply"
  by (simp add: getBraviaStatus2_def getBraviaStatus_def)

lemma tweet2_quiet: "unhandled (tweet2 text media now posted) = []"
  by (simp add: tweet2_def Let_def split: outcome.splits)

lemma startBraviaMonitor_stores:
  "braviaStatus (fst (startBraviaMonitor power_reply info_reply now posted a))
     = emoji_tv @ sp @ fst (getBraviaStatus2 power_reply info_reply)"
  by (auto simp add: startBraviaMonitor_def Let_def split: prod.splits)

lemma startBraviaMonitor_quiet:
  "unhandled (snd (startBraviaMonitor power_reply info_reply now posted a)) = []"
proof -
  obtain status effs where g: "getBraviaStatus2 power_reply info_reply = (status, effs)"
    by (cases "getBraviaStatus2 power_reply info_reply")
  with getBraviaStatus_quiet [of power_reply info_reply] have effs: "unhandled effs = []"
    by (simp add: getBraviaStatus2_eq)
  from g effs show ?thesis
    by (simp add: startBraviaMonitor_def Let_def unhandled_append tweet2_quiet)
qed

text \<open>
  C6 (as amended). One tick of the display loop, in both variants (the callback variant's
  \<open>_getBraviaStatus\<close> returns what the async/await variant's does). If the power status is
  not \<open>active\<close>, the fragment is that keyword. If it is \<open>active\<close>, the fragment is the title,
  followed, when a program title is present (a non-empty string), by a colon, a space and
  the program title without its code points in U+E000..U+F8FF and U+1F300..U+1F5FF, the
  two ranges of the regular expression: every other code point stays, in its place, also
  the emoji outside these ranges and the supplementary private use planes; for a well
  formed program title the code points of what is appended are exactly those that stay.
  If either request fails the fragment is \<open>?\<close>. In every case the stored display fragment
  is the television emoji, a space and the fragment, and the tick leaves no error
  unhandled.
\<close>

theorem display_tick_fragment:
  "(\<forall>keyword. power_reply = Resolved keyword \<and> keyword \<noteq> ascii ''active'' \<longrightarrow>
       fst (getBraviaStatus power_reply info_reply) = keyword)
   \<and> (\<forall>info t. power_reply = Resolved (ascii ''active'') \<and> info_reply = Resolved info
         \<and> programTitle info = Some t \<and> t \<noteq> [] \<longrightarrow>
       fst (getBraviaStatus power_reply info_reply)
         = title info @ ascii '': ''
           @ of_code_points (filter (\<lambda>cp. \<not> INVALID_TEXT_code_point cp) (code_points t))
       \<and> (well_formed t \<longrightarrow>
            code_points (of_code_points
                (filter (\<lambda>cp. \<not> INVALID_TEXT_code_point cp) (code_points t)))
              = filter (\<lambda>cp. \<not> INVALID_TEXT_code_point cp) (code_points t)))
   \<and> (\<forall>info. power_reply = Resolved (ascii ''active'') \<and> info_reply = Resolved info
         \<and> \<not> truthy (programTitle info) \<longrightarrow>
       fst (getBraviaStatus power_reply info_reply) = title info)
   \<and> ((\<exists>err. power_reply = Rejected err)
        \<or> (power_reply = Resolved (ascii ''active'') \<and> (\<exists>err. info_reply = Rejected err)) \<longrightarrow>
       fst (getBraviaStatus power_reply info_reply) = ascii ''?'')
   \<and> braviaStatus (fst (updateBraviaStatus power_reply info_reply now posted a))
       = emoji_tv @ sp @ fst (getBraviaStatus power_reply info_reply)
   \<and> unhandled (snd (updateBraviaStatus power_reply info_reply now posted a)) = []
   \<and> getBraviaStatus2 power_reply info_reply = getBraviaStatus power_reply info_reply
   \<and> braviaStatus (fst (startBraviaMonitor power_reply info_reply now posted a))
       = emoji_tv @ sp @ fst (getBraviaStatus power_reply info_reply)
   \<and> unhandled (snd (startBraviaMonitor power_reply info_reply now posted a)) = []"
proof -
  have inactive: "fst (getBraviaStatus power_reply info_reply) = keyword"
    if "power_reply = Resolved keyword" and "keyword \<noteq> ascii ''active''" for keyword
    using that by (simp add: getBraviaStatus_def)
  have programme: "fst (getBraviaStatus power_reply info_reply)
         = title info @ ascii '': ''
           @ of_code_points (filter (\<lambda>cp. \<not> INVALID_TEXT_code_point cp) (code_points t))"
    if "power_reply = Resolved (ascii ''active'')" and "info_reply = Resolved info"
      and "programTitle info = Some t" and "t \<noteq> []" for info t
    using that by (simp add: getBraviaStatus_def replace_code_points)
  have remaining: "code_points (of_code_points
                (filter (\<lambda>cp. \<not> INVALID_TEXT_code_point cp) (code_points t)))
              = filter (\<lambda>cp. \<not> INVALID_TEXT_code_point cp) (code_points t)"
    if "well_formed t" for t
    using replace_well_formed [OF that] by (simp add: replace_code_points)
  have plain: "fst (getBraviaStatus power_reply info_reply) = title info"
    if "power_reply = Resolved (ascii ''active'')" and "info_reply = Resolved info"
      and "\<not> truthy (programTitle info)" for info
    using that by (simp add: getBraviaStatus_def truthy_def split: option.splits)
  have failed: "fst (getBraviaStatus power_reply info_reply) = ascii ''?''"
    if "(\<exists>err. power_reply = Rejected err)
        \<or> (power_reply = Resolved (ascii ''active'') \<and> (\<exists>err. info_reply = Rejected err))"
    using that by (auto simp add: getBraviaStatus_def)
  have callback: "braviaStatus (fst (startBraviaMonitor power_reply info_reply now posted a))
       = emoji_tv @ sp @ fst (getBraviaStatus power_reply info_reply)"
    by (simp add: startBraviaMonitor_stores getBraviaStatus2_eq)
  from inactive programme remaining plain failed show ?thesis
    by (simp only: updateBraviaStatus_stores updateBraviaStatus_quiet getBraviaStatus2_eq
        callback startBraviaMonitor_quiet) blast
qed

theorem display_tick_fragment_witness:
  "ascii ''standby'' \<noteq> ascii ''active''
   \<and> braviaStatus (fst (updateBraviaStatus (Resolved (ascii ''standby'')) (Rejected []) 0 (Resolved ()) new_App))
       = emoji_tv @ sp @ ascii ''standby''
   \<and> braviaStatus (fst (startBraviaMonitor (Resolved (ascii ''standby'')) (Rejected []) 0 (Resolved ()) new_App))
       = emoji_tv @ sp @ ascii ''standby''
   \<and> programTitle \<lparr>title = ascii ''NHK'', programTitle = Some [0x4E, 0xE0FD, 0xD83C, 0xDF24, 0xD83D, 0xDE00, 0x21]\<rparr>
       = Some [0x4E, 0xE0FD, 0xD83C, 0xDF24, 0xD83D, 0xDE00, 0x21]
   \<and> fst (getBraviaStatus (Resolved (ascii ''active''))
         (Resolved \<lparr>title = ascii ''NHK'', programTitle = Some [0x4E, 0xE0FD, 0xD83C, 0xDF24, 0xD83D, 0xDE00, 0x21]\<rparr>))
       = ascii ''NHK: N'' @ [0xD83D, 0xDE00] @ ascii ''!''
   \<and> well_formed [0x4E, 0xE0FD, 0xD83C, 0xDF24, 0xD83D, 0xDE00, 0x21]
   \<and> code_points [0x4E, 0xD83D, 0xDE00, 0x21] = [0x4E, 0x1F600, 0x21]
   \<and> \<not> truthy (programTitle \<lparr>title = ascii ''NHK'', programTitle = Some []\<rparr>)
   \<and> fst (getBraviaStatus (Resolved (ascii ''active'')) (Resolved \<lparr>title = ascii ''NHK'', programTitle = Some []\<rparr>))
       = ascii ''NHK''
   \<and> fst (getBraviaStatus (Resolved (ascii ''active'')) (Rejected (ascii ''timeout''))) = ascii ''?''"
proof -
  let ?t = "[0x4E, 0xE0FD, 0xD83C, 0xDF24, 0xD83D, 0xDE00, 0x21] :: jsstring"
  let ?info = "\<lparr>title = ascii ''NHK'', programTitle = Some ?t\<rparr>"
  let ?bare = "\<lparr>title = ascii ''NHK'', programTitle = Some []\<rparr>"
  let ?active = "Resolved (ascii ''active'') :: jsstring outcome"
  let ?standby = "Resolved (ascii ''standby'') :: jsstring outcome"
  note standby = display_tick_fragment [of ?standby "Rejected []" 0 "Resolved ()" new_App]
  note programme = display_tick_fragment [of ?active "Resolved ?info" 0 "Resolved ()" new_App]
  note bare = display_tick_fragment [of ?active "Resolved ?bare" 0 "Resolved ()" new_App]
  note failed = display_tick_fragment [of ?active "Rejected (ascii ''timeout'')" 0 "Resolved ()" new_App]
  have ne: "ascii ''standby'' \<noteq> ascii ''active''"
    by (simp add: ascii_def)
  then have keyword: "fst (getBraviaStatus ?standby (Rejected [])) = ascii ''standby''"
    using standby [THEN conjunct1, rule_format, of "ascii ''standby''"] by simp
  then have stored: "braviaStatus (fst (updateBraviaStatus ?standby (Rejected []) 0 (Resolved ()) new_App))
       = emoji_tv @ sp @ ascii ''standby''"
    using standby [THEN conjunct2, THEN conjunct2, THEN conjunct2, THEN conjunct2, THEN conjunct1]
    by simp
  from keyword have stored2: "braviaStatus (fst (startBraviaMonitor ?standby (Rejected []) 0 (Resolved ()) new_App))
       = emoji_tv @ sp @ ascii ''standby''"
    using standby [THEN conjunct2, THEN conjunct2, THEN conjunct2, THEN conjunct2, THEN conjunct2,
      THEN conjunct2, THEN conjunct2, THEN conjunct1]
    by simp
  have cps: "code_points ?t = [0x4E, 0xE0FD, 0x1F324, 0x1F600, 0x21]"
    by (simp add: high_surrogate_def low_surrogate_def)
  have wf: "well_formed ?t"
    unfolding well_formed_def cps by (simp add: scalar_def)
  have kept: "of_code_points (filter (\<lambda>cp. \<not> INVALID_TEXT_code_point cp) (code_points ?t)) = [0x4E, 0xD83D, 0xDE00, 0x21]"
    unfolding cps by (simp add: INVALID_TEXT_code_point_def of_code_points_def utf16_def)
  have both: "fst (getBraviaStatus ?active (Resolved ?info))
      = title ?info @ ascii '': '' @ of_code_points (filter (\<lambda>cp. \<not> INVALID_TEXT_code_point cp) (code_points ?t))
      \<and> (well_formed ?t \<longrightarrow>
            code_points (of_code_points
                (filter (\<lambda>cp. \<not> INVALID_TEXT_code_point cp) (code_points ?t)))
              = filter (\<lambda>cp. \<not> INVALID_TEXT_code_point cp) (code_points ?t))"
    by (rule programme [THEN conjunct2, THEN conjunct1, rule_format, of ?info ?t]) simp
  from both [THEN conjunct1]
  have title: "fst (getBraviaStatus ?active (Resolved ?info)) = ascii ''NHK: N'' @ [0xD83D, 0xDE00] @ ascii ''!''"
    unfolding kept by (simp add: ascii_def)
  from both [THEN conjunct2, rule_format, OF wf]
  have remaining: "code_points [0x4E, 0xD83D, 0xDE00, 0x21] = [0x4E, 0x1F600, 0x21]"
    unfolding kept unfolding cps by (simp add: INVALID_TEXT_code_point_def)
  have falsy: "\<not> truthy (programTitle ?bare)"
    by (simp add: truthy_def)
  have "fst (getBraviaStatus ?active (Resolved ?bare)) = title ?bare"
    by (rule bare [THEN conjunct2, THEN conjunct2, THEN conjunct1, rule_format, of ?bare])
      (simp add: truthy_def)
  then have plain: "fst (getBraviaStatus ?active (Resolved ?bare)) = ascii ''NHK''"
    by simp
  have unknown: "fst (getBraviaStatus ?active (Rejected (ascii ''timeout''))) = ascii ''?''"
    by (rule failed [THEN conjunct2, THEN conjunct2, THEN conjunct2, THEN conjunct1, rule_format])
      simp
  from ne stored stored2 title wf remaining falsy plain unknown show ?thesis
    by simp
qed

text \<open>
  The claim C6 as stated fails: U+1F600 (grinning face) is an emoji, and a program title
  that consists of it comes out of the display fragment unchanged, where the claim has
  every private-use, emoji or pictograph code point removed.
\<close>

theorem program_title_emoji_counterexample:
  "fst (getBraviaStatus (Resolved (ascii ''active''))
         (Resolved \<lparr>title = ascii ''NHK'', programTitle = Some [0xD83D, 0xDE00]\<rparr>))
     = ascii ''NHK: '' @ [0xD83D, 0xDE00]
   \<and> code_points [0xD83D, 0xDE00] = [0x1F600]
   \<and> emoji_or_pictograph 0x1F600
   \<and> fst (getBraviaStatus (Resolved (ascii ''active''))
         (Resolved \<lparr>title = ascii ''NHK'', programTitle = Some [0xD83D, 0xDE00]\<rparr>))
     \<noteq> ascii ''NHK: '' @ of_code_points
         (filter (\<lambda>cp. \<not> (private_use cp \<or> emoji_or_pictograph cp)) (code_points [0xD83D, 0xDE00]))"
proof -
  have cps: "code_points [0xD83D, 0xDE00] = [0x1F600]"
    by (simp add: high_surrogate_def low_surrogate_def)
  have emoji: "emoji_or_pictograph 0x1F600"
    by (simp add: emoji_or_pictograph_def)
  have kept: "fst (getBraviaStatus (Resolved (ascii ''active''))
         (Resolved \<lparr>title = ascii ''NHK'', programTitle = Some [0xD83D, 0xDE00]\<rparr>))
     = ascii ''NHK: '' @ [0xD83D, 0xDE00]"
    by (simp add: getBraviaStatus_def ascii_def)
  from emoji have "of_code_points
      (filter (\<lambda>cp. \<not> (private_use cp \<or> emoji_or_pictograph cp)) [0x1F600]) = []"
    by (simp add: of_code_points_def)
  with cps emoji kept show ?thesis
    by simp
qed

section \<open>Properties of the poll loops\<close>




















text \<open>
  When the station call throws, or answers with an empty list of devices, the weather loop
  of the callback variant neither stores a fragment nor re-arms its timer.
\<close>

lemma startNetatmoMonitor_unanswered:
  "startNetatmoMonitor toString (Throws msg) a = (a, [UnhandledRejection msg])"
  "netatmoStatus (fst (startNetatmoMonitor toString (CallbackDevices []) a)) = netatmoStatus a"
  "timers (snd (startNetatmoMonitor toString (CallbackDevices []) a)) = []"
  by (simp_all add: startNetatmoMonitor_def getNetatomoStationData_def calcLux2_def Let_def)




section \<open>Failures of the status post\<close>

text \<open>
  Failed posts and the state: the state a handler leaves does not depend on the answer of
  the post call, and the display loop and the capture workflow of the async/await variant
  leave no error unhandled (\<open>updateBraviaStatus_quiet\<close>, \<open>onCameraRead_publishes_once\<close>).
\<close>

lemma post_outcome_keeps_state:
  "fst (updateNetatmoStatus toString reply now posted a) = fst (updateNetatmoStatus toString reply now posted' a)"
  "fst (updateBraviaStatus power_reply info_reply now posted a) = fst (updateBraviaStatus power_reply info_reply now posted' a)"
  "fst (startBraviaMonitor power_reply info_reply now posted a) = fst (startBraviaMonitor power_reply info_reply now posted' a)"
  "fst (onCameraRead err filename file upload now posted a) = a"
  "fst (cam_on_read2 err filename file upload now posted a) = a"
  by (auto simp add: updateNetatmoStatus_def updateBraviaStatus_def startBraviaMonitor_def
      onCameraRead_def cam_on_read2_def tweet_def Let_def
      split: prod.splits promise.splits outcome.splits)

lemma onCameraRead_publishes_once:
  "posts (snd (onCameraRead err IMG_FILENAME file upload now posted a)) =
     [\<lparr>st_status = composite a
          @ (case file of
               Rejected msg \<Rightarrow> emoji_camera @ msg
             | Resolved data \<Rightarrow> (case upload of Rejected msg \<Rightarrow> emoji_camera @ msg | Resolved m \<Rightarrow> []))
          @ clock_separator @ digits (now div 1000) @ ascii ''UTC'',
       st_media_ids =
         (case file of
            Rejected msg \<Rightarrow> None
          | Resolved data \<Rightarrow>
              (case upload of
                 Rejected msg \<Rightarrow> None
               | Resolved m \<Rightarrow> if truthy (media_id_string m) then media_id_string m else None))\<rparr>]
   \<and> timers (snd (onCameraRead err IMG_FILENAME file upload now posted a)) = [(CamStart, CAM_INTERVAL)]
   \<and> unhandled (snd (onCameraRead err IMG_FILENAME file upload now posted a)) = []"
  by (cases "file"; cases upload; cases posted)
    (simp_all add: onCameraRead_def tweet_def composite_def Let_def truthy_def)

text \<open>
  C5 fails on the weather loop of the async/await variant. \<open>updateNetatmoStatus\<close> calls
  \<open>this._tweet(...)\<close> without \<open>await\<close> (line 124), where \<open>updateBraviaStatus\<close> and
  \<open>_onCameraRead\<close> await it inside a \<open>try\<close>: when the post call fails, the rejection of
  the dropped promise is neither caught nor logged by the program. Here the station
  request answers with an error and the post call is rejected.
\<close>

theorem weather_post_failure_unhandled:
  "updateNetatmoStatus int_toString CallbackError 1700000000000 (Rejected (ascii ''ETIMEDOUT'')) new_App
     = (new_App\<lparr>netatmoStatus := emoji_bulb @ emoji_zzz @ sp @ ascii ''Netatmo error! ''\<rparr>,
        [Post \<lparr>st_status = emoji_bulb @ emoji_zzz @ sp @ ascii ''Netatmo error! '' @ sp @ emoji_tv
            @ ascii '' N/A'' @ clock_separator @ ascii ''1700000000UTC'', st_media_ids = None\<rparr>,
         UnhandledRejection (ascii ''ETIMEDOUT'')])"
proof -
  have seconds: "digits 1700000000 = ascii ''1700000000''"
    by (simp add: digits.simps ascii_def)
  have differs: "netatmoStatus new_App \<noteq> emoji_bulb @ emoji_zzz @ sp @ ascii ''Netatmo error! ''"
    by (simp add: new_App_def js_lit ascii_def)
  have "getNetatmoStationData int_toString CallbackError new_App
      = (Settled (Resolved (emoji_bulb @ emoji_zzz @ sp @ ascii ''Netatmo error! '')), new_App, [])"
    by (simp add: getNetatmoStationData_def calcLux_def new_App_def)
  with differs show ?thesis
    by (simp add: updateNetatmoStatus_def tweet_def truthy_def seconds Let_def new_App_def)
      (simp add: ascii_def)
qed

section \<open>Properties of the capture workflow\<close>

text \<open>
  In the callback variant an unreadable photo ends the handler at \<open>fs.readFileSync\<close>:
  nothing is published and the timer is not re-armed.
\<close>

lemma cam_on_read2_unreadable_photo:
  "cam_on_read2 err IMG_FILENAME (Rejected msg) upload now posted a
     = (a, [if err then Log Error else Log Info, Uncaught (Failure msg)])"
  by (simp add: cam_on_read2_def)

text \<open>
  C2 fails on the callback variant. With the expected filename and a photo that can be
  read, a failed upload makes the upload callback throw a \<open>TypeError\<close> on the assignment
  to the constant \<open>status\<close>: there is no publish call. (The async/await variant does
  publish exactly once and re-arms the timer exactly once, whatever fails:
  \<open>onCameraRead_publishes_once\<close>.)
\<close>

theorem camera_upload_failure_no_post:
  "cam_on_read2 False IMG_FILENAME (Resolved jpeg) (Rejected msg) now posted a
     = (a, [Log Info, Upload jpeg, Uncaught TypeError, SetTimeout CamStart CAM_INTERVAL])
   \<and> posts (snd (cam_on_read2 False IMG_FILENAME (Resolved jpeg) (Rejected msg) now posted a)) = []"
  by (simp add: cam_on_read2_def)

end
